theory Spec2Isabelle
  imports Complex_Main
begin

section \<open>Python values handled by \<open>backend/lambda_function.py\<close>\<close>

text \<open>
  The handler works on what \<open>json.loads\<close> produces: \<open>None\<close>, booleans, integers,
  floats, strings, lists and dictionaries with string keys. A dictionary is an
  association list in insertion order, read with \<open>map_of\<close>. A finite float is the
  rational it denotes (\<open>0.0\<close> and \<open>-0.0\<close> are both \<open>Finite 0\<close>).

  A Python string is kept as the bytes of its UTF-8 encoding. Python strings may hold
  lone surrogates (\<open>json.loads\<close> returns one for the text \<open>"\ud800"\<close>); a surrogate
  is kept as the three bytes that the \<open>surrogatepass\<close> handler writes for it: \<open>0xED\<close>,
  a byte from \<open>0xA0\<close> to \<open>0xBF\<close>, and a continuation byte.
\<close>

datatype pyfloat = Finite rat | PosInf | NegInf | NaN

datatype json =
    JNull
  | JBool bool
  | JInt int
  | JFloat pyfloat
  | JStr string
  | JList "json list"
  | JDict "(string \<times> json) list"

text \<open>Python's truth test, as used by \<open>if event.get('body')\<close> and \<open>if not city\<close>.\<close>

fun truthy :: "json \<Rightarrow> bool" where
  "truthy JNull = False"
| "truthy (JBool b) = b"
| "truthy (JInt i) = (i \<noteq> 0)"
| "truthy (JFloat f) = (f \<noteq> Finite 0)"
| "truthy (JStr s) = (s \<noteq> [])"
| "truthy (JList xs) = (xs \<noteq> [])"
| "truthy (JDict kvs) = (kvs \<noteq> [])"

fun type_name :: "json \<Rightarrow> string" where
  "type_name JNull = ''NoneType''"
| "type_name (JBool b) = ''bool''"
| "type_name (JInt i) = ''int''"
| "type_name (JFloat f) = ''float''"
| "type_name (JStr s) = ''str''"
| "type_name (JList xs) = ''list''"
| "type_name (JDict kvs) = ''dict''"

section \<open>Exceptions\<close>

text \<open>
  The classes that the statements of the handler can raise: the builtin ones of
  attribute access and subscription, of the JSON decoder at its limits
  (\<open>RecursionError\<close>, \<open>ValueError\<close>) and of writing to \<open>sys.stdout\<close>
  (\<open>UnicodeEncodeError\<close>), \<open>json.JSONDecodeError\<close>, and the classes of
  \<open>requests.exceptions\<close>. \<open>ConnectionError\<close> and \<open>Timeout\<close> are the classes of
  \<open>requests.exceptions\<close>, as the source names them; \<open>RequestsJSONDecodeError\<close> is
  \<open>requests.exceptions.JSONDecodeError\<close>. \<open>Other n\<close> is any further class named \<open>n\<close>
  that derives from \<open>Exception\<close> only.

  \<open>requests.exceptions.HTTPError\<close> is raised by \<open>raise_for_status\<close> alone, which
  attaches the response to it; it is the second constructor of \<open>exn\<close>.
\<close>

datatype exn_class =
    Exception
  | LookupError
  | IndexError
  | KeyError
  | AttributeError
  | TypeError
  | ValueError
  | UnicodeError
  | UnicodeEncodeError
  | RuntimeError
  | RecursionError
  | OSError
  | JSONDecodeError
  | RequestException
  | InvalidJSONError
  | RequestsJSONDecodeError
  | ConnectionError
  | ProxyError
  | SSLError
  | Timeout
  | ConnectTimeout
  | ReadTimeout
  | URLRequired
  | TooManyRedirects
  | MissingSchema
  | InvalidSchema
  | InvalidURL
  | InvalidHeader
  | InvalidProxyURL
  | ChunkedEncodingError
  | ContentDecodingError
  | StreamConsumedError
  | RetryError
  | UnrewindableBodyError
  | Other string

record http_response =
  status_code :: int
  response_text :: string

datatype exn =
    Exn exn_class string
  | HTTPError http_response

text \<open>
  The proper ancestors of each class among these classes, from the \<open>class\<close>
  statements of the Python library and of \<open>requests/exceptions.py\<close> (\<open>IOError\<close>
  is \<open>OSError\<close>). There, \<open>ConnectTimeout\<close> is declared with the two bases
  \<open>ConnectionError\<close> and \<open>Timeout\<close>, and \<open>JSONDecodeError\<close> of \<open>requests\<close>
  with the bases \<open>InvalidJSONError\<close> and \<open>json.JSONDecodeError\<close>.
\<close>

fun superclasses :: "exn_class \<Rightarrow> exn_class list" where
  "superclasses Exception = []"
| "superclasses LookupError = [Exception]"
| "superclasses IndexError = [LookupError, Exception]"
| "superclasses KeyError = [LookupError, Exception]"
| "superclasses AttributeError = [Exception]"
| "superclasses TypeError = [Exception]"
| "superclasses ValueError = [Exception]"
| "superclasses UnicodeError = [ValueError, Exception]"
| "superclasses UnicodeEncodeError = [UnicodeError, ValueError, Exception]"
| "superclasses RuntimeError = [Exception]"
| "superclasses RecursionError = [RuntimeError, Exception]"
| "superclasses OSError = [Exception]"
| "superclasses JSONDecodeError = [ValueError, Exception]"
| "superclasses RequestException = [OSError, Exception]"
| "superclasses InvalidJSONError = [RequestException, OSError, Exception]"
| "superclasses RequestsJSONDecodeError =
     [InvalidJSONError, RequestException, OSError, JSONDecodeError, ValueError, Exception]"
| "superclasses ConnectionError = [RequestException, OSError, Exception]"
| "superclasses ProxyError = [ConnectionError, RequestException, OSError, Exception]"
| "superclasses SSLError = [ConnectionError, RequestException, OSError, Exception]"
| "superclasses Timeout = [RequestException, OSError, Exception]"
| "superclasses ConnectTimeout =
     [ConnectionError, Timeout, RequestException, OSError, Exception]"
| "superclasses ReadTimeout = [Timeout, RequestException, OSError, Exception]"
| "superclasses URLRequired = [RequestException, OSError, Exception]"
| "superclasses TooManyRedirects = [RequestException, OSError, Exception]"
| "superclasses MissingSchema = [RequestException, OSError, ValueError, Exception]"
| "superclasses InvalidSchema = [RequestException, OSError, ValueError, Exception]"
| "superclasses InvalidURL = [RequestException, OSError, ValueError, Exception]"
| "superclasses InvalidHeader = [RequestException, OSError, ValueError, Exception]"
| "superclasses InvalidProxyURL =
     [InvalidURL, RequestException, OSError, ValueError, Exception]"
| "superclasses ChunkedEncodingError = [RequestException, OSError, Exception]"
| "superclasses ContentDecodingError = [RequestException, OSError, Exception]"
| "superclasses StreamConsumedError = [RequestException, OSError, TypeError, Exception]"
| "superclasses RetryError = [RequestException, OSError, Exception]"
| "superclasses UnrewindableBodyError = [RequestException, OSError, Exception]"
| "superclasses (Other n) = [Exception]"

definition issubclass :: "exn_class \<Rightarrow> exn_class \<Rightarrow> bool" where
  "issubclass c d = (c = d \<or> d \<in> set (superclasses c))"

section \<open>Attribute access and subscription\<close>

definition sq :: "string \<Rightarrow> string" where
  "sq s = CHR 0x27 # s @ [CHR 0x27]"

definition then_do :: "exn + 'a \<Rightarrow> ('a \<Rightarrow> exn + 'b) \<Rightarrow> exn + 'b" where
  "then_do m f = (case m of Inl e \<Rightarrow> Inl e | Inr v \<Rightarrow> f v)"

text \<open>
  \<open>x.get(k, d)\<close>: a dictionary answers with the value or the default; every other
  value has no attribute \<open>get\<close>.
\<close>

fun py_get :: "json \<Rightarrow> string \<Rightarrow> json \<Rightarrow> exn + json" where
  "py_get (JDict kvs) k d = Inr (case map_of kvs k of None \<Rightarrow> d | Some v \<Rightarrow> v)"
| "py_get v k d =
     Inl (Exn AttributeError (sq (type_name v) @ '' object has no attribute '' @ sq ''get''))"

text \<open>A continuation byte of UTF-8: from \<open>0x80\<close> to \<open>0xBF\<close>.\<close>

definition is_cont :: "char \<Rightarrow> bool" where
  "is_cont c = (128 \<le> (of_char c :: nat) \<and> (of_char c :: nat) < 192)"

text \<open>
  \<open>x[0]\<close>: the first element of a list or the first character of a string (its
  first byte and the continuation bytes after it), \<open>IndexError\<close> when it is empty;
  \<open>KeyError\<close> on a dictionary, whose keys are strings; \<open>TypeError\<close> on the rest.
\<close>

fun py_item0 :: "json \<Rightarrow> exn + json" where
  "py_item0 (JList []) = Inl (Exn IndexError ''list index out of range'')"
| "py_item0 (JList (x # xs)) = Inr x"
| "py_item0 (JStr []) = Inl (Exn IndexError ''string index out of range'')"
| "py_item0 (JStr (c # cs)) = Inr (JStr (c # takeWhile is_cont cs))"
| "py_item0 (JDict kvs) = Inl (Exn KeyError ''0'')"
| "py_item0 v = Inl (Exn TypeError (sq (type_name v) @ '' object is not subscriptable''))"

section \<open>Writing to the log\<close>

text \<open>
  \<open>print\<close> writes to \<open>sys.stdout\<close>, which encodes the text as UTF-8 with the
  error handler \<open>strict\<close>. Every string
  can be encoded except one with a surrogate, for which the encoder raises
  \<open>UnicodeEncodeError\<close>. Its message names the position of the first surrogate,
  counted in characters, and the surrogate itself, or the positions of the first and
  the last one when several surrogates follow each other.
\<close>

fun surrogate_first :: "string \<Rightarrow> bool" where
  "surrogate_first (a # b # s) = (a = CHR 0xED \<and> 160 \<le> (of_char b :: nat))"
| "surrogate_first s = False"

fun has_surrogate :: "string \<Rightarrow> bool" where
  "has_surrogate [] = False"
| "has_surrogate (a # s) = (surrogate_first (a # s) \<or> has_surrogate s)"

fun surrogate_start :: "string \<Rightarrow> nat" where
  "surrogate_start [] = 0"
| "surrogate_start (a # s) =
     (if surrogate_first (a # s) then 0
      else (if is_cont a then 0 else 1) + surrogate_start s)"

fun from_surrogate :: "string \<Rightarrow> string" where
  "from_surrogate [] = []"
| "from_surrogate (a # s) = (if surrogate_first (a # s) then a # s else from_surrogate s)"

fun surrogate_run :: "string \<Rightarrow> nat" where
  "surrogate_run (a # b # c # s) =
     (if surrogate_first (a # b # c # s) then Suc (surrogate_run s) else 0)"
| "surrogate_run s = 0"

fun code_point :: "string \<Rightarrow> nat" where
  "code_point (a # b # c # s) =
     53248 + ((of_char b :: nat) - 128) * 64 + ((of_char c :: nat) - 128)"
| "code_point s = 0"

definition digit :: "nat \<Rightarrow> char" where
  "digit n = ''0123456789abcdef'' ! (n mod 16)"

definition hex4 :: "nat \<Rightarrow> string" where
  "hex4 n = [digit (n div 4096), digit (n div 256), digit (n div 16), digit n]"

fun decimal :: "nat \<Rightarrow> string" where
  "decimal n = (if n < 10 then [digit n] else decimal (n div 10) @ [digit (n mod 10)])"

declare decimal.simps [simp del]

definition encode_error :: "string \<Rightarrow> string" where
  "encode_error s =
     (let p = surrogate_start s; t = from_surrogate s; n = surrogate_run t
      in if n \<le> 1 then
           sq ''utf-8'' @ '' codec can'' @ [CHR 0x27] @ ''t encode character ''
           @ sq (CHR 0x5C # CHR ''u'' # hex4 (code_point t))
           @ '' in position '' @ decimal p @ '': surrogates not allowed''
         else
           sq ''utf-8'' @ '' codec can'' @ [CHR 0x27] @ ''t encode characters in position ''
           @ decimal p @ ''-'' @ decimal (p + n - 1) @ '': surrogates not allowed'')"

definition py_print :: "string \<Rightarrow> exn + unit" where
  "py_print s =
     (if has_surrogate s then Inl (Exn UnicodeEncodeError (encode_error s)) else Inr ())"

section \<open>The invocation and its environment\<close>

text \<open>
  The two entries of the API Gateway event that the handler reads: \<open>body\<close>, a string
  or \<open>None\<close>, and \<open>queryStringParameters\<close>, a dictionary of strings or \<open>None\<close>.
\<close>

record event =
  body :: "string option"
  queryStringParameters :: "(string \<times> string) list option"

text \<open>The arguments of \<open>requests.get\<close> at line 67.\<close>

record get_request =
  url :: "string option"
  req_headers :: "(string \<times> string option) list"
  params :: "(string \<times> json) list"
  timeout :: nat

text \<open>
  What the module reads from outside: the three environment variables of lines 7 to 9,
  \<open>json.loads\<close> and \<open>requests.get\<close> (\<open>Inl (c, m)\<close> raises class \<open>c\<close> with
  message \<open>m\<close>: \<open>json.loads\<close> raises \<open>json.JSONDecodeError\<close> on a text that is not
  JSON, \<open>RecursionError\<close> on a text nested too deeply, \<open>ValueError\<close> on a number
  with too many digits) and \<open>datetime.now().isoformat()\<close>.
\<close>

record runtime =
  RAPIDAPI_KEY :: "string option"
  RAPIDAPI_HOST :: "string option"
  WEATHER_API_URL :: "string option"
  json_loads :: "string \<Rightarrow> (exn_class \<times> string) + json"
  requests_get :: "get_request \<Rightarrow> (exn_class \<times> string) + http_response"
  now_isoformat :: string

text \<open>
  \<open>json.dumps\<close> serializes every value of type \<open>json\<close>; the text it returns is
  kept as the value it was made from.
\<close>

datatype serialized = json_dumps json

record response =
  statusCode :: int
  headers :: "(string \<times> string) list"
  body :: serialized

section \<open>The library calls on the upstream reply\<close>

text \<open>\<open>Response.raise_for_status\<close>: \<open>HTTPError\<close> for a status from 400 to 599.\<close>

definition raise_for_status :: "http_response \<Rightarrow> exn + unit" where
  "raise_for_status r =
     (if 400 \<le> status_code r \<and> status_code r < 500
        then Inl (HTTPError r)
      else if 500 \<le> status_code r \<and> status_code r < 600
        then Inl (HTTPError r)
      else Inr ())"

text \<open>
  \<open>Response.json\<close>: the text of the reply through the JSON decoder; its
  \<open>json.JSONDecodeError\<close> is caught and raised again as
  \<open>requests.exceptions.JSONDecodeError\<close>, any other exception passes.
\<close>

definition response_json :: "runtime \<Rightarrow> http_response \<Rightarrow> exn + json" where
  "response_json rt r =
     (case json_loads rt (response_text r) of
        Inl (c, m) \<Rightarrow>
          if issubclass c JSONDecodeError then Inl (Exn RequestsJSONDecodeError m)
          else Inl (Exn c m)
      | Inr v \<Rightarrow> Inr v)"

section \<open>The handler\<close>

text \<open>
  Lines 21 to 26: where the city comes from. \<open>Inr None\<close> is the \<open>else\<close> branch
  (neither a body nor query parameters), \<open>Inr (Some city)\<close> the value bound to
  \<open>city\<close>, which is \<open>None\<close> when the key is missing.
\<close>

definition read_city :: "runtime \<Rightarrow> event \<Rightarrow> exn + json option" where
  "read_city rt ev =
     (case event.body ev of
        Some (c # cs) \<Rightarrow>
          then_do (case json_loads rt (c # cs) of
                     Inl (cls, m) \<Rightarrow> Inl (Exn cls m)
                   | Inr b \<Rightarrow> Inr b)
            (\<lambda>body. then_do (py_get body ''city'' JNull) (\<lambda>city. Inr (Some city)))
      | _ \<Rightarrow>
          (case queryStringParameters ev of
             Some (p # ps) \<Rightarrow>
               Inr (Some (case map_of (p # ps) ''city'' of
                            None \<Rightarrow> JNull
                          | Some s \<Rightarrow> JStr s))
           | _ \<Rightarrow> Inr None))"

text \<open>
  Lines 76 to 88: the first forecast and the dictionary built from it, each
  expression evaluated in the order of the source.
\<close>

definition format_weather :: "runtime \<Rightarrow> json \<Rightarrow> json \<Rightarrow> exn + json" where
  "format_weather rt city weather_data =
     then_do (py_get weather_data ''list'' (JList [JDict []])) (\<lambda>forecasts.
     then_do (py_item0 forecasts) (\<lambda>first_forecast.
     then_do (py_get first_forecast ''main'' (JDict [])) (\<lambda>main1.
     then_do (py_get main1 ''temprature'' JNull) (\<lambda>temperature.
     then_do (py_get first_forecast ''main'' (JDict [])) (\<lambda>main2.
     then_do (py_get main2 ''temprature_feels_like'' JNull) (\<lambda>feels_like.
     then_do (py_get first_forecast ''weather'' (JList [JDict []])) (\<lambda>weather1.
     then_do (py_item0 weather1) (\<lambda>w1.
     then_do (py_get w1 ''description'' JNull) (\<lambda>description.
     then_do (py_get first_forecast ''weather'' (JList [JDict []])) (\<lambda>weather2.
     then_do (py_item0 weather2) (\<lambda>w2.
     then_do (py_get w2 ''icon'' JNull) (\<lambda>icon.
     then_do (py_get first_forecast ''main'' (JDict [])) (\<lambda>main3.
     then_do (py_get main3 ''humidity'' JNull) (\<lambda>humidity.
     then_do (py_get first_forecast ''wind'' (JDict [])) (\<lambda>wind.
     then_do (py_get wind ''speed'' JNull) (\<lambda>wind_speed.
     Inr (JDict [(''city'', city),
                 (''country'', JNull),
                 (''temperature'', temperature),
                 (''feels_like'', feels_like),
                 (''description'', description),
                 (''icon'', icon),
                 (''humidity'', humidity),
                 (''wind_speed'', wind_speed),
                 (''timestamp'', JStr (now_isoformat rt))])))))))))))))))))"

text \<open>Lines 53 to 67: the arguments with which \<open>requests.get\<close> is called.\<close>

definition weather_request :: "runtime \<Rightarrow> json \<Rightarrow> get_request" where
  "weather_request rt city =
     \<lparr>url = WEATHER_API_URL rt,
      req_headers = [(''X-RapidAPI-Key'', RAPIDAPI_KEY rt),
                     (''X-RapidAPI-Host'', RAPIDAPI_HOST rt)],
      params = [(''place'', city),
                (''units'', JStr ''standard''),
                (''mode'', JStr ''json''),
                (''lang'', JStr ''en'')],
      timeout = 10\<rparr>"

text \<open>
  Line 50: the city goes into the line by \<open>str\<close>. A city that is a string is
  written as it is; the text of any other value is made by \<open>repr\<close>, which escapes
  surrogates, so that writing it raises nothing.
\<close>

definition print_fetching :: "json \<Rightarrow> exn + unit" where
  "print_fetching city =
     (case city of
        JStr s \<Rightarrow> py_print (''Fetching weather for city: '' @ s)
      | other \<Rightarrow> Inr ())"

text \<open>
  Lines 15 to 99, the \<open>try\<close> block: the response it returns or the exception it
  raises, and the calls of \<open>requests.get\<close> it made. The lines printed at 17 and 71
  are outputs of \<open>json.dumps\<close>, which escapes every character outside ASCII, so
  that writing them raises nothing; they are left out.
\<close>

definition try_block :: "runtime \<Rightarrow> event \<Rightarrow> (exn + response) \<times> get_request list" where
  "try_block rt ev =
     (case read_city rt ev of
        Inl e \<Rightarrow> (Inl e, [])
      | Inr None \<Rightarrow>
          (Inr \<lparr>statusCode = 400,
                headers = [(''Content-Type'', ''application/json''),
                           (''Access-Control-Allow-Origin'', ''*''),
                           (''Access-Control-Allow-Methods'', ''GET,POST,OPTIONS''),
                           (''Access-Control-Allow-Headers'',
                            ''Content-Type,X-Amz-Date,Authorization,X-Api-Key,X-Amz-Security-Token'')],
                body = json_dumps (JDict [(''error'',
                          JStr ''City parameter missing in request body or query string.'')])\<rparr>,
           [])
      | Inr (Some city) \<Rightarrow>
          if \<not> truthy city then
            (Inr \<lparr>statusCode = 400,
                  headers = [(''Content-Type'', ''application/json''),
                             (''Access-Control-Allow-Origin'', ''*''),
                             (''Access-Control-Allow-Methods'', ''GET,POST,OPTIONS''),
                             (''Access-Control-Allow-Headers'',
                              ''Content-Type,X-Amz-Date,Authorization,X-Api-Key,X-Amz-Security-Token'')],
                  body = json_dumps (JDict [(''error'', JStr ''City parameter is required.'')])\<rparr>,
             [])
          else
            (case print_fetching city of
               Inl e \<Rightarrow> (Inl e, [])
             | Inr u \<Rightarrow>
                 let req = weather_request rt city
                 in (then_do (case requests_get rt req of
                                Inl (c, m) \<Rightarrow> Inl (Exn c m)
                              | Inr r \<Rightarrow> Inr r) (\<lambda>resp.
                     then_do (raise_for_status resp) (\<lambda>u.
                     then_do (response_json rt resp) (\<lambda>weather_data.
                     then_do (format_weather rt city weather_data) (\<lambda>formatted_weather.
                     Inr \<lparr>statusCode = 200,
                          headers = [(''Content-Type'', ''application/json''),
                                     (''Access-Control-Allow-Origin'', ''*''),
                                     (''Access-Control-Allow-Methods'', ''GET,POST,OPTIONS''),
                                     (''Access-Control-Allow-Headers'',
                                      ''Content-Type,X-Amz-Date,Authorization,X-Api-Key,X-Amz-Security-Token'')],
                          body = json_dumps formatted_weather\<rparr>)))),
                     [req])))"

text \<open>
  Lines 101 to 164, the \<open>except\<close> clauses in their order: the first clause whose
  class the exception is an instance of handles it. An exception that no clause
  matches leaves the handler (\<open>Inl\<close>), and so does an exception raised inside a
  clause, by the \<open>print\<close> of lines 104, 117, 130 and 154.
\<close>

definition except_clauses :: "runtime \<Rightarrow> exn \<Rightarrow> exn + response" where
  "except_clauses rt e =
     (case e of
        HTTPError r \<Rightarrow>
          let error_message = ''HTTP error occurred: '' @ response_text r
          in then_do (py_print error_message) (\<lambda>u.
             Inr \<lparr>statusCode = status_code r,
                  headers = [(''Content-Type'', ''application/json''),
                             (''Access-Control-Allow-Origin'', ''*''),
                             (''Access-Control-Allow-Methods'', ''GET,POST,OPTIONS''),
                             (''Access-Control-Allow-Headers'',
                              ''Content-Type,X-Amz-Date,Authorization,X-Api-Key,X-Amz-Security-Token'')],
                  body = json_dumps (JDict [(''error'', JStr ''Failed to fetch weather data from external API.''),
                            (''details'', JStr error_message)])\<rparr>)
      | Exn c m \<Rightarrow>
          if issubclass c ConnectionError then
            then_do (py_print (''Connection error occurred: '' @ m)) (\<lambda>u.
            Inr \<lparr>statusCode = 500,
                 headers = [(''Content-Type'', ''application/json''),
                            (''Access-Control-Allow-Origin'', ''*''),
                            (''Access-Control-Allow-Methods'', ''GET,POST,OPTIONS''),
                            (''Access-Control-Allow-Headers'',
                             ''Content-Type,X-Amz-Date,Authorization,X-Api-Key,X-Amz-Security-Token'')],
                 body = json_dumps (JDict [(''error'',
                           JStr ''Network connection error while fetching weather data.'')])\<rparr>)
          else if issubclass c Timeout then
            then_do (py_print (''Request timed out: '' @ m)) (\<lambda>u.
            Inr \<lparr>statusCode = 500,
                 headers = [(''Content-Type'', ''application/json''),
                            (''Access-Control-Allow-Origin'', ''*''),
                            (''Access-Control-Allow-Methods'', ''GET,POST,OPTIONS''),
                            (''Access-Control-Allow-Headers'',
                             ''Content-Type,X-Amz-Date,Authorization,X-Api-Key,X-Amz-Security-Token'')],
                 body = json_dumps (JDict [(''error'', JStr ''Request to external API timed out.'')])\<rparr>)
          else if issubclass c JSONDecodeError then
            Inr \<lparr>statusCode = 400,
                 headers = [(''Content-Type'', ''application/json''),
                            (''Access-Control-Allow-Origin'', ''*''),
                            (''Access-Control-Allow-Methods'', ''GET,POST,OPTIONS''),
                            (''Access-Control-Allow-Headers'',
                             ''Content-Type,X-Amz-Date,Authorization,X-Api-Key,X-Amz-Security-Token'')],
                 body = json_dumps (JDict [(''error'', JStr ''Invalid JSON in request body.'')])\<rparr>
          else if issubclass c Exception then
            then_do (py_print (''An unexpected error occurred: '' @ m)) (\<lambda>u.
            Inr \<lparr>statusCode = 500,
                 headers = [(''Content-Type'', ''application/json''),
                            (''Access-Control-Allow-Origin'', ''*''),
                            (''Access-Control-Allow-Methods'', ''GET,POST,OPTIONS''),
                            (''Access-Control-Allow-Headers'',
                             ''Content-Type,X-Amz-Date,Authorization,X-Api-Key,X-Amz-Security-Token'')],
                 body = json_dumps (JDict [(''error'', JStr ''Internal server error.''),
                           (''details'', JStr m)])\<rparr>)
          else Inl e)"

definition lambda_handler :: "runtime \<Rightarrow> event \<Rightarrow> (exn + response) \<times> get_request list" where
  "lambda_handler rt ev =
     (case try_block rt ev of
        (Inl e, calls) \<Rightarrow> (except_clauses rt e, calls)
      | (Inr r, calls) \<Rightarrow> (Inr r, calls))"

text \<open>\<open>isinstance(v, dict)\<close>.\<close>

fun is_dict :: "json \<Rightarrow> bool" where
  "is_dict (JDict kvs) = True"
| "is_dict v = False"

section \<open>Example invocations\<close>

text \<open>
  Environments and events for the concrete runs below: a decoder given by the table
  of the texts it accepts, an upstream with one fixed outcome, a request that carries
  the city in its query parameters and a request that carries a body.
\<close>

definition example_loads ::
  "(string \<times> json) list \<Rightarrow> string \<Rightarrow> (exn_class \<times> string) + json" where
  "example_loads table s =
     (case map_of table s of
        Some v \<Rightarrow> Inr v
      | None \<Rightarrow> Inl (JSONDecodeError, ''Expecting value: line 1 column 1 (char 0)''))"

definition example_runtime ::
  "(string \<times> json) list \<Rightarrow> (exn_class \<times> string) + http_response \<Rightarrow> runtime" where
  "example_runtime table outcome =
     \<lparr>RAPIDAPI_KEY = Some ''key'',
      RAPIDAPI_HOST = Some ''weather.example'',
      WEATHER_API_URL = Some ''https://weather.example/forecast'',
      json_loads = example_loads table,
      requests_get = (\<lambda>req. outcome),
      now_isoformat = ''2024-05-01T12:00:00''\<rparr>"

definition query_event :: "string \<Rightarrow> event" where
  "query_event c = \<lparr>event.body = None, queryStringParameters = Some [(''city'', c)]\<rparr>"

definition body_event :: "string \<Rightarrow> event" where
  "body_event b = \<lparr>event.body = Some b, queryStringParameters = None\<rparr>"

text \<open>An upstream payload with one forecast, and its text.\<close>

definition example_forecast_text :: string where
  \<open>example_forecast_text =
     ''{"list": [{"main": {"temprature": 288, "temprature_feels_like": 287, "humidity": 62}, ''
     @ ''"weather": [{"description": "light rain", "icon": "10d"}], "wind": {"speed": 4}}]}''\<close>

definition example_forecast :: json where
  "example_forecast =
     JDict [(''list'',
             JList [JDict [(''main'', JDict [(''temprature'', JInt 288),
                                             (''temprature_feels_like'', JInt 287),
                                             (''humidity'', JInt 62)]),
                           (''weather'', JList [JDict [(''description'', JStr ''light rain''),
                                                       (''icon'', JStr ''10d'')]]),
                           (''wind'', JDict [(''speed'', JInt 4)])]])]"

text \<open>
  A decoder at its recursion limit: on a text of 1200 opening brackets it raises
  \<open>RecursionError\<close>; and the string that holds the lone surrogate \<open>U+D800\<close>.
\<close>

definition deep_text :: string where
  "deep_text = replicate 1200 (CHR ''['')"

definition deep_loads :: "string \<Rightarrow> (exn_class \<times> string) + json" where
  "deep_loads s =
     (if s = deep_text then
        Inl (RecursionError,
             ''maximum recursion depth exceeded while decoding a JSON array from a unicode string'')
      else example_loads [] s)"

definition deep_runtime :: "(exn_class \<times> string) + http_response \<Rightarrow> runtime" where
  "deep_runtime outcome = (example_runtime [] outcome)\<lparr>json_loads := deep_loads\<rparr>"

definition lone_surrogate :: string where
  "lone_surrogate = [CHR 0xED, CHR 0xA0, CHR 0x80]"

text \<open>The JSON text of a body whose city is that string, written with its escape.\<close>

definition surrogate_body :: string where
  \<open>surrogate_body = ''{"city": "'' @ [CHR 0x5C] @ ''ud800"}''\<close>

section \<open>Auxiliary facts\<close>

text \<open>What an \<open>except\<close> clause writes to the log for the exception can be encoded.\<close>

fun loggable :: "exn \<Rightarrow> bool" where
  "loggable (HTTPError r) = (\<not> has_surrogate (response_text r))"
| "loggable (Exn c m) = (\<not> has_surrogate m)"


lemma then_do_Inr [simp]: "then_do (Inr v) f = f v"
  by (simp add: then_do_def)

lemma then_do_Inl [simp]: "then_do (Inl e) f = Inl e"
  by (simp add: then_do_def)

lemma then_do_eq_Inr: "then_do m f = Inr y \<longleftrightarrow> (\<exists>v. m = Inr v \<and> f v = Inr y)"
  by (cases m) simp_all


text \<open>Texts without the byte \<open>0xED\<close>, such as ASCII texts, hold no surrogate.\<close>

lemma surrogate_first_plain: "a \<noteq> CHR 0xED \<Longrightarrow> \<not> surrogate_first (a # s)"
  by (cases s) simp_all

lemma plain_no_surrogate: "CHR 0xED \<notin> set s \<Longrightarrow> \<not> has_surrogate s"
  by (induction s) (auto simp: surrogate_first_plain)





lemma type_name_plain: "CHR 0xED \<notin> set (type_name v)"
  by (cases v) auto

text \<open>The messages of the exceptions that the handler's own statements raise.\<close>

lemma py_get_loggable: "py_get v k d = Inl e \<Longrightarrow> loggable e"
  using type_name_plain [of v]
  by (cases v) (auto simp: sq_def intro!: plain_no_surrogate)




lemma format_weather_dict:
  "format_weather rt city w = Inr v \<Longrightarrow> \<exists>kvs. v = JDict kvs \<and> map_of kvs ''city'' = Some city"
  unfolding format_weather_def then_do_eq_Inr by auto

lemma print_fetching_encodable: "\<not> has_surrogate c \<Longrightarrow> print_fetching (JStr c) = Inr ()"
  by (simp add: print_fetching_def py_print_def surrogate_first_plain)


text \<open>The responses of the \<open>except\<close> clauses.\<close>

lemma except_clauses_headers:
  assumes "except_clauses rt e = Inr r"
  shows "headers r = [(''Content-Type'', ''application/json''),
                      (''Access-Control-Allow-Origin'', ''*''),
                      (''Access-Control-Allow-Methods'', ''GET,POST,OPTIONS''),
                      (''Access-Control-Allow-Headers'',
                       ''Content-Type,X-Amz-Date,Authorization,X-Api-Key,X-Amz-Security-Token'')] \<and>
     (\<exists>kvs. body r = json_dumps (JDict kvs))"
  using assms
  by (cases e)
    (auto simp: except_clauses_def Let_def then_do_eq_Inr split: if_splits)


lemma try_block_response:
  assumes "try_block rt ev = (Inr r, calls)"
  shows "headers r = [(''Content-Type'', ''application/json''),
                      (''Access-Control-Allow-Origin'', ''*''),
                      (''Access-Control-Allow-Methods'', ''GET,POST,OPTIONS''),
                      (''Access-Control-Allow-Headers'',
                       ''Content-Type,X-Amz-Date,Authorization,X-Api-Key,X-Amz-Security-Token'')] \<and>
     (\<exists>kvs. body r = json_dumps (JDict kvs))"
  using assms
  by (auto simp: try_block_def Let_def then_do_eq_Inr
        split: sum.splits option.splits if_splits dest: format_weather_dict)





text \<open>The two ways in which a request supplies the city, as \<open>read_city\<close> sees them.\<close>

lemma read_city_supplied:
  assumes "(event.body ev = Some b \<and> b \<noteq> [] \<and> json_loads rt b = Inr (JDict kvs) \<and>
            map_of kvs ''city'' = Some (JStr c)) \<or>
           ((event.body ev = None \<or> event.body ev = Some []) \<and>
            queryStringParameters ev = Some q \<and> q \<noteq> [] \<and> map_of q ''city'' = Some c)"
  shows "read_city rt ev = Inr (Some (JStr c))"
  using assms
  by (auto simp: read_city_def neq_Nil_conv)

text \<open>A request with a body: the city is read from what the decoder returns.\<close>

lemma read_city_body:
  assumes "event.body ev = Some b" and "b \<noteq> []"
  shows "read_city rt ev =
           then_do (case json_loads rt b of
                      Inl (cls, m) \<Rightarrow> Inl (Exn cls m)
                    | Inr v \<Rightarrow> Inr v)
             (\<lambda>body. then_do (py_get body ''city'' JNull) (\<lambda>city. Inr (Some city)))"
  using assms by (auto simp: read_city_def neq_Nil_conv)

text \<open>
  With a city that passes the truth test and whose log line can be written, the
  handler goes on to the upstream call.
\<close>

lemma try_block_fetch:
  assumes "read_city rt ev = Inr (Some city)" and "truthy city"
    and "print_fetching city = Inr ()"
  shows "try_block rt ev =
           (then_do (case requests_get rt (weather_request rt city) of
                       Inl (c, m) \<Rightarrow> Inl (Exn c m)
                     | Inr r \<Rightarrow> Inr r) (\<lambda>resp.
            then_do (raise_for_status resp) (\<lambda>u.
            then_do (response_json rt resp) (\<lambda>weather_data.
            then_do (format_weather rt city weather_data) (\<lambda>formatted_weather.
            Inr \<lparr>statusCode = 200,
                 headers =
                   [(''Content-Type'', ''application/json''),
                    (''Access-Control-Allow-Origin'', ''*''),
                    (''Access-Control-Allow-Methods'', ''GET,POST,OPTIONS''),
                    (''Access-Control-Allow-Headers'',
                     ''Content-Type,X-Amz-Date,Authorization,X-Api-Key,X-Amz-Security-Token'')],
                 body = json_dumps formatted_weather\<rparr>)))),
            [weather_request rt city])"
  using assms by (simp add: try_block_def Let_def)

lemma is_dict_conv: "is_dict v \<longleftrightarrow> (\<exists>kvs. v = JDict kvs)"
  by (cases v) simp_all

text \<open>A first forecast of the expected shape is reshaped without an exception.\<close>

lemma format_weather_shaped:
  assumes lst: "map_of payload ''list'' = Some (JList (JDict f # fs))"
    and main: "case map_of f ''main'' of None \<Rightarrow> True | Some m \<Rightarrow> is_dict m"
    and weather: "case map_of f ''weather'' of
                    None \<Rightarrow> True
                  | Some (JList (w # ws)) \<Rightarrow> is_dict w
                  | Some other \<Rightarrow> False"
    and wind: "case map_of f ''wind'' of None \<Rightarrow> True | Some w \<Rightarrow> is_dict w"
  shows "\<exists>fw. format_weather rt city (JDict payload) = Inr (JDict fw) \<and>
              map_of fw ''city'' = Some city"
proof -
  from main obtain mk where
    m: "(case map_of f ''main'' of None \<Rightarrow> JDict [] | Some v \<Rightarrow> v) = JDict mk"
    by (auto simp: is_dict_conv split: option.splits)
  from wind obtain dk where
    d: "(case map_of f ''wind'' of None \<Rightarrow> JDict [] | Some v \<Rightarrow> v) = JDict dk"
    by (auto simp: is_dict_conv split: option.splits)
  from weather obtain wk ws where
    w: "(case map_of f ''weather'' of None \<Rightarrow> JList [JDict []] | Some v \<Rightarrow> v)
          = JList (JDict wk # ws)"
    by (auto simp: is_dict_conv split: option.splits json.splits list.splits)
  show ?thesis
    by (simp add: format_weather_def lst m d w)
qed

text \<open>The definitions that a concrete run unfolds.\<close>

lemmas handler_defs =
  lambda_handler_def try_block_def read_city_def weather_request_def raise_for_status_def
  response_json_def format_weather_def except_clauses_def issubclass_def
  print_fetching_def py_print_def
  example_runtime_def example_loads_def query_event_def body_event_def

section \<open>Properties of the handler\<close>

text \<open>
  C1. The claim: with a non-empty city and an upstream 2xx reply whose payload has
  \<open>list\<close> bound to an empty sequence, the handler returns 200 with all weather fields
  null. The code at that input: \<open>[][0]\<close> at line 76 raises \<open>IndexError\<close>, which
  the last \<open>except\<close> clause turns into status 500 with \<open>Internal server error.\<close>
\<close>

theorem C1_empty_list_internal_error:
  \<open>lambda_handler
     (example_runtime [(''{"list": []}'', JDict [(''list'', JList [])])]
        (Inr \<lparr>status_code = 200, response_text = ''{"list": []}''\<rparr>))
     (query_event ''Paris'') =
   (Inr \<lparr>statusCode = 500,
         headers = [(''Content-Type'', ''application/json''),
                    (''Access-Control-Allow-Origin'', ''*''),
                    (''Access-Control-Allow-Methods'', ''GET,POST,OPTIONS''),
                    (''Access-Control-Allow-Headers'',
                     ''Content-Type,X-Amz-Date,Authorization,X-Api-Key,X-Amz-Security-Token'')],
         body = json_dumps
           (JDict [(''error'', JStr ''Internal server error.''),
                   (''details'', JStr ''list index out of range'')])\<rparr>,
    [weather_request
       (example_runtime [(''{"list": []}'', JDict [(''list'', JList [])])]
          (Inr \<lparr>status_code = 200, response_text = ''{"list": []}''\<rparr>))
       (JStr ''Paris'')])\<close>
  by (simp add: handler_defs)

text \<open>
  When the key \<open>list\<close> is absent, the default \<open>[{}]\<close> of the same line gives the
  answer that the empty list misses: status 200 and every weather field null.
\<close>

lemma absent_list_all_null:
  \<open>lambda_handler
     (example_runtime [(''{}'', JDict [])]
        (Inr \<lparr>status_code = 200, response_text = ''{}''\<rparr>))
     (query_event ''Paris'') =
   (Inr \<lparr>statusCode = 200,
         headers = [(''Content-Type'', ''application/json''),
                    (''Access-Control-Allow-Origin'', ''*''),
                    (''Access-Control-Allow-Methods'', ''GET,POST,OPTIONS''),
                    (''Access-Control-Allow-Headers'',
                     ''Content-Type,X-Amz-Date,Authorization,X-Api-Key,X-Amz-Security-Token'')],
         body = json_dumps
           (JDict [(''city'', JStr ''Paris''),
                   (''country'', JNull),
                   (''temperature'', JNull),
                   (''feels_like'', JNull),
                   (''description'', JNull),
                   (''icon'', JNull),
                   (''humidity'', JNull),
                   (''wind_speed'', JNull),
                   (''timestamp'', JStr ''2024-05-01T12:00:00'')])\<rparr>,
    [weather_request
       (example_runtime [(''{}'', JDict [])]
          (Inr \<lparr>status_code = 200, response_text = ''{}''\<rparr>))
       (JStr ''Paris'')])\<close>
  by (simp add: handler_defs)

text \<open>
  C2. Whatever the request and whatever the upstream does, a response that the handler
  returns, from the \<open>try\<close> block or from an \<open>except\<close> clause, has the same four
  headers: the content type and the three CORS headers.
\<close>

theorem C2_fixed_headers:
  assumes "lambda_handler rt ev = (Inr r, calls)"
  shows "headers r = [(''Content-Type'', ''application/json''),
                      (''Access-Control-Allow-Origin'', ''*''),
                      (''Access-Control-Allow-Methods'', ''GET,POST,OPTIONS''),
                      (''Access-Control-Allow-Headers'',
                       ''Content-Type,X-Amz-Date,Authorization,X-Api-Key,X-Amz-Security-Token'')]"
proof (cases "try_block rt ev")
  case (Pair res calls')
  show ?thesis
  proof (cases res)
    case (Inl e)
    with Pair assms have "except_clauses rt e = Inr r"
      by (simp add: lambda_handler_def)
    then show ?thesis
      using except_clauses_headers by blast
  next
    case (Inr r')
    with Pair assms have "try_block rt ev = (Inr r, calls)"
      by (simp add: lambda_handler_def)
    then show ?thesis
      using try_block_response by blast
  qed
qed

theorem C2_fixed_headers_witness:
  "lambda_handler (example_runtime [] (Inl (SSLError, ''certificate verify failed'')))
     (query_event ''Oslo'') =
   (Inr \<lparr>statusCode = 500,
         headers = [(''Content-Type'', ''application/json''),
                    (''Access-Control-Allow-Origin'', ''*''),
                    (''Access-Control-Allow-Methods'', ''GET,POST,OPTIONS''),
                    (''Access-Control-Allow-Headers'',
                     ''Content-Type,X-Amz-Date,Authorization,X-Api-Key,X-Amz-Security-Token'')],
         body = json_dumps
           (JDict [(''error'',
                    JStr ''Network connection error while fetching weather data.'')])\<rparr>,
    [weather_request (example_runtime [] (Inl (SSLError, ''certificate verify failed'')))
       (JStr ''Oslo'')]) \<and>
   headers \<lparr>statusCode = 500,
         headers = [(''Content-Type'', ''application/json''),
                    (''Access-Control-Allow-Origin'', ''*''),
                    (''Access-Control-Allow-Methods'', ''GET,POST,OPTIONS''),
                    (''Access-Control-Allow-Headers'',
                     ''Content-Type,X-Amz-Date,Authorization,X-Api-Key,X-Amz-Security-Token'')],
         body = json_dumps
           (JDict [(''error'',
                    JStr ''Network connection error while fetching weather data.'')])\<rparr> =
     [(''Content-Type'', ''application/json''),
      (''Access-Control-Allow-Origin'', ''*''),
      (''Access-Control-Allow-Methods'', ''GET,POST,OPTIONS''),
      (''Access-Control-Allow-Headers'',
       ''Content-Type,X-Amz-Date,Authorization,X-Api-Key,X-Amz-Security-Token'')]"
proof -
  have run: "lambda_handler (example_runtime [] (Inl (SSLError, ''certificate verify failed'')))
     (query_event ''Oslo'') =
   (Inr \<lparr>statusCode = 500,
         headers = [(''Content-Type'', ''application/json''),
                    (''Access-Control-Allow-Origin'', ''*''),
                    (''Access-Control-Allow-Methods'', ''GET,POST,OPTIONS''),
                    (''Access-Control-Allow-Headers'',
                     ''Content-Type,X-Amz-Date,Authorization,X-Api-Key,X-Amz-Security-Token'')],
         body = json_dumps
           (JDict [(''error'',
                    JStr ''Network connection error while fetching weather data.'')])\<rparr>,
    [weather_request (example_runtime [] (Inl (SSLError, ''certificate verify failed'')))
       (JStr ''Oslo'')])"
    by (simp add: handler_defs)
  from C2_fixed_headers [OF run] run show ?thesis
    by simp
qed

text \<open>
  C3, as amended. When the request supplies a non-empty city string without a lone
  surrogate (in a JSON body, or in the query parameters of a request without body),
  the upstream replies with a 2xx status, and the payload is an object whose
  \<open>list\<close> is a non-empty list whose first entry is an object in which \<open>main\<close> and
  \<open>wind\<close>, when present, are objects and \<open>weather\<close>, when present, is a non-empty
  list that starts with an object, the handler returns status 200 and the \<open>city\<close> of
  the body is the input city.
\<close>

theorem C3_city_echoed:
  assumes "(event.body ev = Some b \<and> b \<noteq> [] \<and> json_loads rt b = Inr (JDict kvs) \<and>
            map_of kvs ''city'' = Some (JStr c)) \<or>
           ((event.body ev = None \<or> event.body ev = Some []) \<and>
            queryStringParameters ev = Some q \<and> q \<noteq> [] \<and> map_of q ''city'' = Some c)"
    and "c \<noteq> []" and "\<not> has_surrogate c"
    and "requests_get rt (weather_request rt (JStr c)) = Inr resp"
    and "200 \<le> status_code resp" and "status_code resp < 300"
    and "json_loads rt (response_text resp) = Inr (JDict payload)"
    and "map_of payload ''list'' = Some (JList (JDict f # fs))"
    and "case map_of f ''main'' of None \<Rightarrow> True | Some m \<Rightarrow> is_dict m"
    and "case map_of f ''weather'' of
           None \<Rightarrow> True
         | Some (JList (w # ws)) \<Rightarrow> is_dict w
         | Some other \<Rightarrow> False"
    and "case map_of f ''wind'' of None \<Rightarrow> True | Some w \<Rightarrow> is_dict w"
  shows "\<exists>fw. lambda_handler rt ev =
           (Inr \<lparr>statusCode = 200,
                 headers =
                   [(''Content-Type'', ''application/json''),
                    (''Access-Control-Allow-Origin'', ''*''),
                    (''Access-Control-Allow-Methods'', ''GET,POST,OPTIONS''),
                    (''Access-Control-Allow-Headers'',
                     ''Content-Type,X-Amz-Date,Authorization,X-Api-Key,X-Amz-Security-Token'')],
                 body = json_dumps (JDict fw)\<rparr>,
            [weather_request rt (JStr c)]) \<and>
          map_of fw ''city'' = Some (JStr c)"
proof -
  have city: "read_city rt ev = Inr (Some (JStr c))"
    using assms(1) by (rule read_city_supplied)
  have printed: "print_fetching (JStr c) = Inr ()"
    using assms(3) by (rule print_fetching_encodable)
  have status: "raise_for_status resp = Inr ()"
    using assms(5,6) by (simp add: raise_for_status_def)
  have payload: "response_json rt resp = Inr (JDict payload)"
    using assms(7) by (simp add: response_json_def)
  from format_weather_shaped [OF assms(8-11)] obtain fw where
    fw: "format_weather rt (JStr c) (JDict payload) = Inr (JDict fw)"
      "map_of fw ''city'' = Some (JStr c)"
    by blast
  have "try_block rt ev =
          (Inr \<lparr>statusCode = 200,
                 headers =
                   [(''Content-Type'', ''application/json''),
                    (''Access-Control-Allow-Origin'', ''*''),
                    (''Access-Control-Allow-Methods'', ''GET,POST,OPTIONS''),
                    (''Access-Control-Allow-Headers'',
                     ''Content-Type,X-Amz-Date,Authorization,X-Api-Key,X-Amz-Security-Token'')],
                 body = json_dumps (JDict fw)\<rparr>,
            [weather_request rt (JStr c)])"
    using try_block_fetch [OF city _ printed] assms(2,4) status payload fw(1) by simp
  then show ?thesis
    using fw(2) by (simp add: lambda_handler_def)
qed

theorem C3_city_echoed_witness:
  \<open>\<exists>fw. lambda_handler
     (example_runtime [(''{"city": "Paris"}'', JDict [(''city'', JStr ''Paris'')]),
                       (example_forecast_text, example_forecast)]
        (Inr \<lparr>status_code = 200, response_text = example_forecast_text\<rparr>))
     (body_event ''{"city": "Paris"}'') =
   (Inr \<lparr>statusCode = 200,
         headers = [(''Content-Type'', ''application/json''),
                    (''Access-Control-Allow-Origin'', ''*''),
                    (''Access-Control-Allow-Methods'', ''GET,POST,OPTIONS''),
                    (''Access-Control-Allow-Headers'',
                     ''Content-Type,X-Amz-Date,Authorization,X-Api-Key,X-Amz-Security-Token'')],
         body = json_dumps (JDict fw)\<rparr>,
    [weather_request
       (example_runtime [(''{"city": "Paris"}'', JDict [(''city'', JStr ''Paris'')]),
                         (example_forecast_text, example_forecast)]
          (Inr \<lparr>status_code = 200, response_text = example_forecast_text\<rparr>))
       (JStr ''Paris'')]) \<and>
    map_of fw ''city'' = Some (JStr ''Paris'')\<close>
  using C3_city_echoed
    [of \<open>body_event ''{"city": "Paris"}''\<close> \<open>''{"city": "Paris"}''\<close>
        \<open>example_runtime [(''{"city": "Paris"}'', JDict [(''city'', JStr ''Paris'')]),
                          (example_forecast_text, example_forecast)]
           (Inr \<lparr>status_code = 200, response_text = example_forecast_text\<rparr>)\<close>
        "[(''city'', JStr ''Paris'')]" "''Paris''" "[]"
        "\<lparr>status_code = 200, response_text = example_forecast_text\<rparr>"
        "[(''list'',
             JList [JDict [(''main'', JDict [(''temprature'', JInt 288),
                                             (''temprature_feels_like'', JInt 287),
                                             (''humidity'', JInt 62)]),
                           (''weather'', JList [JDict [(''description'', JStr ''light rain''),
                                                       (''icon'', JStr ''10d'')]]),
                           (''wind'', JDict [(''speed'', JInt 4)])]])]"
        "[(''main'', JDict [(''temprature'', JInt 288),
                                             (''temprature_feels_like'', JInt 287),
                                             (''humidity'', JInt 62)]),
                           (''weather'', JList [JDict [(''description'', JStr ''light rain''),
                                                       (''icon'', JStr ''10d'')]]),
                           (''wind'', JDict [(''speed'', JInt 4)])]" "[]"]
  by (simp add: body_event_def example_runtime_def example_loads_def example_forecast_def
        example_forecast_text_def)

text \<open>
  C3, as stated, asks only for a non-empty \<open>list\<close>. With a first entry that is
  not an object, \<open>first_forecast.get\<close> raises \<open>AttributeError\<close> and the response is
  500, not 200.
\<close>

theorem C3_counterexample:
  \<open>lambda_handler
     (example_runtime [(''{"list": ["n/a"]}'', JDict [(''list'', JList [JStr ''n/a''])])]
        (Inr \<lparr>status_code = 200, response_text = ''{"list": ["n/a"]}''\<rparr>))
     (query_event ''Paris'') =
   (Inr \<lparr>statusCode = 500,
         headers = [(''Content-Type'', ''application/json''),
                    (''Access-Control-Allow-Origin'', ''*''),
                    (''Access-Control-Allow-Methods'', ''GET,POST,OPTIONS''),
                    (''Access-Control-Allow-Headers'',
                     ''Content-Type,X-Amz-Date,Authorization,X-Api-Key,X-Amz-Security-Token'')],
         body = json_dumps
           (JDict [(''error'', JStr ''Internal server error.''),
                   (''details'', JStr (sq ''str'' @ '' object has no attribute '' @ sq ''get''))])\<rparr>,
    [weather_request
       (example_runtime [(''{"list": ["n/a"]}'', JDict [(''list'', JList [JStr ''n/a''])])]
          (Inr \<lparr>status_code = 200, response_text = ''{"list": ["n/a"]}''\<rparr>))
       (JStr ''Paris'')])\<close>
  by (simp add: handler_defs sq_def)

text \<open>
  A city with a lone surrogate does not reach the upstream call: \<open>print\<close> at line 50
  raises \<open>UnicodeEncodeError\<close>, which the last \<open>except\<close> clause answers with 500.
\<close>

lemma surrogate_city_internal_error:
  \<open>lambda_handler
     (example_runtime [(surrogate_body, JDict [(''city'', JStr lone_surrogate)])]
        (Inr \<lparr>status_code = 200, response_text = ''{}''\<rparr>))
     (body_event surrogate_body) =
   (Inr \<lparr>statusCode = 500,
         headers = [(''Content-Type'', ''application/json''),
                    (''Access-Control-Allow-Origin'', ''*''),
                    (''Access-Control-Allow-Methods'', ''GET,POST,OPTIONS''),
                    (''Access-Control-Allow-Headers'',
                     ''Content-Type,X-Amz-Date,Authorization,X-Api-Key,X-Amz-Security-Token'')],
         body = json_dumps
           (JDict [(''error'', JStr ''Internal server error.''),
                   (''details'',
                    JStr (sq ''utf-8'' @ '' codec can't encode character ''
                          @ sq (CHR 0x5C # ''ud800'')
                          @ '' in position 27: surrogates not allowed''))])\<rparr>,
    [])\<close>
  by (simp add: handler_defs lone_surrogate_def surrogate_body_def encode_error_def sq_def
        hex4_def digit_def decimal.simps is_cont_def)

text \<open>
  C4. The claim: an upstream call that exceeds the timeout is reported with
  \<open>Request to external API timed out.\<close>, not as a connection error. The code at a
  connect timeout: \<open>ConnectTimeout\<close> derives from both \<open>ConnectionError\<close> and
  \<open>Timeout\<close>, and the clause \<open>except ConnectionError\<close> (line 115) comes before
  \<open>except Timeout\<close> (line 128), so the response carries
  \<open>Network connection error while fetching weather data.\<close>
\<close>

theorem C4_connect_timeout_as_connection_error:
  \<open>lambda_handler
     (example_runtime [] (Inl (ConnectTimeout, ''connect timeout=10'')))
     (query_event ''Paris'') =
   (Inr \<lparr>statusCode = 500,
         headers = [(''Content-Type'', ''application/json''),
                    (''Access-Control-Allow-Origin'', ''*''),
                    (''Access-Control-Allow-Methods'', ''GET,POST,OPTIONS''),
                    (''Access-Control-Allow-Headers'',
                     ''Content-Type,X-Amz-Date,Authorization,X-Api-Key,X-Amz-Security-Token'')],
         body = json_dumps
           (JDict [(''error'', JStr ''Network connection error while fetching weather data.'')])\<rparr>,
    [weather_request
       (example_runtime [] (Inl (ConnectTimeout, ''connect timeout=10'')))
       (JStr ''Paris'')])\<close>
  by (simp add: handler_defs)

text \<open>
  The timeouts that are not connection errors (\<open>Timeout\<close> itself and
  \<open>ReadTimeout\<close>) reach the clause of line 128.
\<close>

lemma timeout_classes:
  "issubclass cls Timeout \<longleftrightarrow> cls = Timeout \<or> cls = ConnectTimeout \<or> cls = ReadTimeout"
  by (cases cls) (simp_all add: issubclass_def)

lemma read_timeout_reported:
  assumes "(event.body ev = Some b \<and> b \<noteq> [] \<and> json_loads rt b = Inr (JDict kvs) \<and>
            map_of kvs ''city'' = Some (JStr c)) \<or>
           ((event.body ev = None \<or> event.body ev = Some []) \<and>
            queryStringParameters ev = Some q \<and> q \<noteq> [] \<and> map_of q ''city'' = Some c)"
    and "c \<noteq> []" and "\<not> has_surrogate c"
    and "requests_get rt (weather_request rt (JStr c)) = Inl (cls, m)"
    and "issubclass cls Timeout" and "\<not> issubclass cls ConnectionError"
    and "\<not> has_surrogate m"
  shows "lambda_handler rt ev =
           (Inr \<lparr>statusCode = 500,
                 headers =
                   [(''Content-Type'', ''application/json''),
                    (''Access-Control-Allow-Origin'', ''*''),
                    (''Access-Control-Allow-Methods'', ''GET,POST,OPTIONS''),
                    (''Access-Control-Allow-Headers'',
                     ''Content-Type,X-Amz-Date,Authorization,X-Api-Key,X-Amz-Security-Token'')],
                 body = json_dumps (JDict [(''error'', JStr ''Request to external API timed out.'')])\<rparr>,
            [weather_request rt (JStr c)])"
proof -
  have city: "read_city rt ev = Inr (Some (JStr c))"
    using assms(1) by (rule read_city_supplied)
  have printed: "print_fetching (JStr c) = Inr ()"
    using assms(3) by (rule print_fetching_encodable)
  have "try_block rt ev = (Inl (Exn cls m), [weather_request rt (JStr c)])"
    using try_block_fetch [OF city _ printed] assms(2,4) by simp
  then show ?thesis
    using assms(5-7)
    by (simp add: lambda_handler_def except_clauses_def py_print_def
          surrogate_first_plain)
qed







text \<open>
  C7. When the body is a JSON object whose \<open>city\<close> is missing, \<open>None\<close>, the empty
  string or any other value that fails the truth test, or when a request without body
  has query parameters whose \<open>city\<close> is missing or empty, the response is 400 with
  \<open>City parameter is required.\<close> and \<open>requests.get\<close> is not called.
\<close>

theorem C7_city_required:
  assumes "(event.body ev = Some b \<and> b \<noteq> [] \<and> json_loads rt b = Inr (JDict kvs) \<and>
            (case map_of kvs ''city'' of None \<Rightarrow> True | Some v \<Rightarrow> \<not> truthy v)) \<or>
           ((event.body ev = None \<or> event.body ev = Some []) \<and>
            queryStringParameters ev = Some q \<and> q \<noteq> [] \<and>
            (map_of q ''city'' = None \<or> map_of q ''city'' = Some []))"
  shows "lambda_handler rt ev =
           (Inr \<lparr>statusCode = 400,
                 headers =
                   [(''Content-Type'', ''application/json''),
                    (''Access-Control-Allow-Origin'', ''*''),
                    (''Access-Control-Allow-Methods'', ''GET,POST,OPTIONS''),
                    (''Access-Control-Allow-Headers'',
                     ''Content-Type,X-Amz-Date,Authorization,X-Api-Key,X-Amz-Security-Token'')],
                 body = json_dumps (JDict [(''error'', JStr ''City parameter is required.'')])\<rparr>,
            [])"
proof -
  from assms obtain city where "read_city rt ev = Inr (Some city)" and "\<not> truthy city"
    by (auto simp: read_city_def neq_Nil_conv split: option.splits)
  then show ?thesis
    by (simp add: lambda_handler_def try_block_def)
qed

theorem C7_city_required_witness:
  \<open>lambda_handler
     (example_runtime [(''{"city": ""}'', JDict [(''city'', JStr [])])] (Inl (ConnectionError, [])))
     (body_event ''{"city": ""}'') =
   (Inr \<lparr>statusCode = 400,
         headers = [(''Content-Type'', ''application/json''),
                    (''Access-Control-Allow-Origin'', ''*''),
                    (''Access-Control-Allow-Methods'', ''GET,POST,OPTIONS''),
                    (''Access-Control-Allow-Headers'',
                     ''Content-Type,X-Amz-Date,Authorization,X-Api-Key,X-Amz-Security-Token'')],
         body = json_dumps (JDict [(''error'', JStr ''City parameter is required.'')])\<rparr>,
    [])\<close>
  using C7_city_required
    [of \<open>body_event ''{"city": ""}''\<close> \<open>''{"city": ""}''\<close>
        \<open>example_runtime [(''{"city": ""}'', JDict [(''city'', JStr [])])]
           (Inl (ConnectionError, []))\<close>
        "[(''city'', JStr [])]" "[]"]
  by (simp add: body_event_def example_runtime_def example_loads_def)

text \<open>
  C8, as amended. When the request carries a non-empty body on which \<open>json.loads\<close>
  raises \<open>json.JSONDecodeError\<close>, the response is 400 with
  \<open>Invalid JSON in request body.\<close>, and \<open>requests.get\<close> is not called.
\<close>

theorem C8_invalid_body_json:
  assumes "event.body ev = Some b" and "b \<noteq> []"
    and "json_loads rt b = Inl (JSONDecodeError, m)"
  shows "lambda_handler rt ev =
           (Inr \<lparr>statusCode = 400,
                 headers =
                   [(''Content-Type'', ''application/json''),
                    (''Access-Control-Allow-Origin'', ''*''),
                    (''Access-Control-Allow-Methods'', ''GET,POST,OPTIONS''),
                    (''Access-Control-Allow-Headers'',
                     ''Content-Type,X-Amz-Date,Authorization,X-Api-Key,X-Amz-Security-Token'')],
                 body = json_dumps (JDict [(''error'', JStr ''Invalid JSON in request body.'')])\<rparr>,
            [])"
proof -
  from assms have "read_city rt ev = Inl (Exn JSONDecodeError m)"
    by (simp add: read_city_body)
  then have "try_block rt ev = (Inl (Exn JSONDecodeError m), [])"
    by (simp add: try_block_def)
  then show ?thesis
    by (simp add: lambda_handler_def except_clauses_def issubclass_def)
qed

theorem C8_invalid_body_json_witness:
  \<open>lambda_handler (example_runtime [] (Inl (ConnectionError, []))) (body_event ''{"city": "Par'') =
   (Inr \<lparr>statusCode = 400,
         headers = [(''Content-Type'', ''application/json''),
                    (''Access-Control-Allow-Origin'', ''*''),
                    (''Access-Control-Allow-Methods'', ''GET,POST,OPTIONS''),
                    (''Access-Control-Allow-Headers'',
                     ''Content-Type,X-Amz-Date,Authorization,X-Api-Key,X-Amz-Security-Token'')],
         body = json_dumps (JDict [(''error'', JStr ''Invalid JSON in request body.'')])\<rparr>,
    [])\<close>
  using C8_invalid_body_json
    [of \<open>body_event ''{"city": "Par''\<close> \<open>''{"city": "Par''\<close>
        \<open>example_runtime [] (Inl (ConnectionError, []))\<close>
        "''Expecting value: line 1 column 1 (char 0)''"]
  by (simp add: body_event_def example_runtime_def example_loads_def)

text \<open>
  C8, as stated, covers every body that is not JSON. A body of 1200 opening brackets
  is not JSON, but the decoder raises \<open>RecursionError\<close> on it, which is not a
  \<open>JSONDecodeError\<close>: the last \<open>except\<close> clause answers with 500.
\<close>

theorem C8_counterexample:
  "lambda_handler (deep_runtime (Inl (ConnectionError, []))) (body_event deep_text) =
   (Inr \<lparr>statusCode = 500,
         headers = [(''Content-Type'', ''application/json''),
                    (''Access-Control-Allow-Origin'', ''*''),
                    (''Access-Control-Allow-Methods'', ''GET,POST,OPTIONS''),
                    (''Access-Control-Allow-Headers'',
                     ''Content-Type,X-Amz-Date,Authorization,X-Api-Key,X-Amz-Security-Token'')],
         body = json_dumps
           (JDict [(''error'', JStr ''Internal server error.''),
                   (''details'',
                    JStr ''maximum recursion depth exceeded while decoding a JSON array from a unicode string'')])\<rparr>,
    [])"
proof -
  have "deep_text \<noteq> []"
    by (simp add: deep_text_def)
  then have "read_city (deep_runtime (Inl (ConnectionError, []))) (body_event deep_text) =
      Inl (Exn RecursionError
        ''maximum recursion depth exceeded while decoding a JSON array from a unicode string'')"
    by (simp add: read_city_body body_event_def deep_runtime_def deep_loads_def)
  then show ?thesis
    by (simp add: lambda_handler_def try_block_def except_clauses_def issubclass_def
          py_print_def)
qed

text \<open>
  C9, as amended. When the request supplies a non-empty city without a lone surrogate
  and the upstream replies with a 2xx status and a text on which the decoder raises
  \<open>json.JSONDecodeError\<close>, the exception of \<open>response.json()\<close> is an instance of
  \<open>json.JSONDecodeError\<close> and reaches the clause of line 141: the response is 400
  with \<open>Invalid JSON in request body.\<close>
\<close>

theorem C9_upstream_invalid_json:
  assumes "(event.body ev = Some b \<and> b \<noteq> [] \<and> json_loads rt b = Inr (JDict kvs) \<and>
            map_of kvs ''city'' = Some (JStr c)) \<or>
           ((event.body ev = None \<or> event.body ev = Some []) \<and>
            queryStringParameters ev = Some q \<and> q \<noteq> [] \<and> map_of q ''city'' = Some c)"
    and "c \<noteq> []" and "\<not> has_surrogate c"
    and "requests_get rt (weather_request rt (JStr c)) = Inr resp"
    and "200 \<le> status_code resp" and "status_code resp < 300"
    and "json_loads rt (response_text resp) = Inl (JSONDecodeError, m)"
  shows "lambda_handler rt ev =
           (Inr \<lparr>statusCode = 400,
                 headers =
                   [(''Content-Type'', ''application/json''),
                    (''Access-Control-Allow-Origin'', ''*''),
                    (''Access-Control-Allow-Methods'', ''GET,POST,OPTIONS''),
                    (''Access-Control-Allow-Headers'',
                     ''Content-Type,X-Amz-Date,Authorization,X-Api-Key,X-Amz-Security-Token'')],
                 body = json_dumps (JDict [(''error'', JStr ''Invalid JSON in request body.'')])\<rparr>,
            [weather_request rt (JStr c)])"
proof -
  have city: "read_city rt ev = Inr (Some (JStr c))"
    using assms(1) by (rule read_city_supplied)
  have printed: "print_fetching (JStr c) = Inr ()"
    using assms(3) by (rule print_fetching_encodable)
  have "raise_for_status resp = Inr ()"
    using assms(5,6) by (simp add: raise_for_status_def)
  moreover have "response_json rt resp = Inl (Exn RequestsJSONDecodeError m)"
    using assms(7) by (simp add: response_json_def issubclass_def)
  ultimately have "try_block rt ev =
      (Inl (Exn RequestsJSONDecodeError m), [weather_request rt (JStr c)])"
    using try_block_fetch [OF city _ printed] assms(2,4) by simp
  then show ?thesis
    by (simp add: lambda_handler_def except_clauses_def issubclass_def)
qed

theorem C9_upstream_invalid_json_witness:
  \<open>lambda_handler
     (example_runtime [] (Inr \<lparr>status_code = 200, response_text = ''<html>ok</html>''\<rparr>))
     (query_event ''Paris'') =
   (Inr \<lparr>statusCode = 400,
         headers = [(''Content-Type'', ''application/json''),
                    (''Access-Control-Allow-Origin'', ''*''),
                    (''Access-Control-Allow-Methods'', ''GET,POST,OPTIONS''),
                    (''Access-Control-Allow-Headers'',
                     ''Content-Type,X-Amz-Date,Authorization,X-Api-Key,X-Amz-Security-Token'')],
         body = json_dumps (JDict [(''error'', JStr ''Invalid JSON in request body.'')])\<rparr>,
    [weather_request
       (example_runtime [] (Inr \<lparr>status_code = 200, response_text = ''<html>ok</html>''\<rparr>))
       (JStr ''Paris'')])\<close>
  using C9_upstream_invalid_json
    [of \<open>query_event ''Paris''\<close> "[]"
        \<open>example_runtime [] (Inr \<lparr>status_code = 200, response_text = ''<html>ok</html>''\<rparr>)\<close>
        "[]" "''Paris''" "[(''city'', ''Paris'')]"
        "\<lparr>status_code = 200, response_text = ''<html>ok</html>''\<rparr>"
        "''Expecting value: line 1 column 1 (char 0)''"]
  by (simp add: query_event_def example_runtime_def example_loads_def)

text \<open>
  C9, as stated, covers every upstream text that is not JSON. On a 2xx reply of 1200
  opening brackets the decoder raises \<open>RecursionError\<close>, which \<open>response.json()\<close>
  lets pass and only the last \<open>except\<close> clause catches: the response is 500, not
  400.
\<close>

theorem C9_counterexample:
  "lambda_handler
     (deep_runtime (Inr \<lparr>status_code = 200, response_text = deep_text\<rparr>))
     (query_event ''Paris'') =
   (Inr \<lparr>statusCode = 500,
         headers = [(''Content-Type'', ''application/json''),
                    (''Access-Control-Allow-Origin'', ''*''),
                    (''Access-Control-Allow-Methods'', ''GET,POST,OPTIONS''),
                    (''Access-Control-Allow-Headers'',
                     ''Content-Type,X-Amz-Date,Authorization,X-Api-Key,X-Amz-Security-Token'')],
         body = json_dumps
           (JDict [(''error'', JStr ''Internal server error.''),
                   (''details'',
                    JStr ''maximum recursion depth exceeded while decoding a JSON array from a unicode string'')])\<rparr>,
    [weather_request
       (deep_runtime (Inr \<lparr>status_code = 200, response_text = deep_text\<rparr>))
       (JStr ''Paris'')])"
  by (simp add: lambda_handler_def try_block_def read_city_def raise_for_status_def
        response_json_def except_clauses_def issubclass_def print_fetching_def py_print_def
        query_event_def deep_runtime_def deep_loads_def example_runtime_def)

text \<open>
  C10. When the body decodes to a JSON value that is not an object, \<open>body.get\<close>
  raises \<open>AttributeError\<close>, which only the last clause catches: the response is 500
  with \<open>Internal server error.\<close> and the message of the exception under \<open>details\<close>.
\<close>

theorem C10_non_object_body:
  assumes "event.body ev = Some b" and "b \<noteq> []" and "json_loads rt b = Inr v"
    and "\<not> is_dict v"
  shows "lambda_handler rt ev =
           (Inr \<lparr>statusCode = 500,
                 headers =
                   [(''Content-Type'', ''application/json''),
                    (''Access-Control-Allow-Origin'', ''*''),
                    (''Access-Control-Allow-Methods'', ''GET,POST,OPTIONS''),
                    (''Access-Control-Allow-Headers'',
                     ''Content-Type,X-Amz-Date,Authorization,X-Api-Key,X-Amz-Security-Token'')],
                 body = json_dumps
                   (JDict [(''error'', JStr ''Internal server error.''),
                           (''details'',
                            JStr (sq (type_name v) @ '' object has no attribute '' @ sq ''get''))])\<rparr>,
            [])"
proof -
  from assms(4) have raised: "py_get v ''city'' JNull =
      Inl (Exn AttributeError (sq (type_name v) @ '' object has no attribute '' @ sq ''get''))"
    by (cases v) simp_all
  then have "loggable
      (Exn AttributeError (sq (type_name v) @ '' object has no attribute '' @ sq ''get''))"
    by (rule py_get_loggable)
  then have printed: "py_print (''An unexpected error occurred: ''
      @ sq (type_name v) @ '' object has no attribute '' @ sq ''get'') = Inr ()"
    by (simp add: py_print_def surrogate_first_plain)
  from raised assms(1-3) have "read_city rt ev =
      Inl (Exn AttributeError (sq (type_name v) @ '' object has no attribute '' @ sq ''get''))"
    by (simp add: read_city_body)
  then have "try_block rt ev =
      (Inl (Exn AttributeError (sq (type_name v) @ '' object has no attribute '' @ sq ''get'')), [])"
    by (simp add: try_block_def)
  then show ?thesis
    using printed by (simp add: lambda_handler_def except_clauses_def issubclass_def)
qed

theorem C10_non_object_body_witness:
  \<open>lambda_handler
     (example_runtime [(''["Paris"]'', JList [JStr ''Paris''])] (Inl (ConnectionError, [])))
     (body_event ''["Paris"]'') =
   (Inr \<lparr>statusCode = 500,
         headers = [(''Content-Type'', ''application/json''),
                    (''Access-Control-Allow-Origin'', ''*''),
                    (''Access-Control-Allow-Methods'', ''GET,POST,OPTIONS''),
                    (''Access-Control-Allow-Headers'',
                     ''Content-Type,X-Amz-Date,Authorization,X-Api-Key,X-Amz-Security-Token'')],
         body = json_dumps
           (JDict [(''error'', JStr ''Internal server error.''),
                   (''details'', JStr (sq ''list'' @ '' object has no attribute '' @ sq ''get''))])\<rparr>,
    [])\<close>
  using C10_non_object_body
    [of \<open>body_event ''["Paris"]''\<close> \<open>''["Paris"]''\<close>
        \<open>example_runtime [(''["Paris"]'', JList [JStr ''Paris''])] (Inl (ConnectionError, []))\<close>
        "JList [JStr ''Paris'']"]
  by (simp add: body_event_def example_runtime_def example_loads_def)

end
